theory Spec2Isabelle
  imports Main
begin

section \<open>The command factory options of cmdfactory/options.go\<close>

text \<open>
  The file \<^verbatim>\<open>cmdfactory/options.go\<close> builds a \<^verbatim>\<open>CliOptions\<close> record through
  functional options: every \<^verbatim>\<open>With...\<close> function returns a closure of type
  \<^verbatim>\<open>func(*CliOptions) error\<close>. The closure mutates the record through its pointer,
  so a step is modelled as a function from the record to the returned error
  (\<open>None\<close> for Go's \<^verbatim>\<open>nil\<close>) and the record after the call. The record after a
  failing call is kept, as the caller of the Go closure still holds the pointer.
\<close>

subsection \<open>Errors\<close>

text \<open>
  \<open>Errorf\<close> is \<^verbatim>\<open>fmt.Errorf\<close> with a plain message. \<open>Wrapf ctx e\<close> is the
  shape \<^verbatim>\<open>fmt.Errorf("ctx: %w", e)\<close>, an error wrapped with a context; external
  factories may return either shape.
\<close>

datatype error = Errorf string | Wrapf string error

text \<open>\<open>wraps e' e\<close>: the error \<open>e'\<close> is \<open>e\<close> wrapped with a non-empty context.\<close>

fun wraps :: "error \<Rightarrow> error \<Rightarrow> bool" where
  "wraps (Wrapf ctx inner) e = (inner = e \<and> ctx \<noteq> [])"
| "wraps (Errorf msg) e = False"

subsection \<open>The external handles\<close>

text \<open>An \<^verbatim>\<open>io.Writer\<close>: the standard channels of the process, or any other.\<close>

datatype Writer = os_Stdout | os_Stderr | Writer nat

text \<open>
  \<^verbatim>\<open>iostreams.IOStreams\<close>: the output channel, the pager command (the empty string
  is Go's zero value: no pager) and the prompt suppression flag.
\<close>

record IOStreams =
  Out :: Writer
  pagerCommand :: string
  neverPrompt :: bool

text \<open>
  The fields of \<^verbatim>\<open>logrus.TextFormatter\<close> and of \<^verbatim>\<open>log.TextFormatter\<close> that the
  options assign; \<open>new_TextFormatter\<close> is Go's \<^verbatim>\<open>new(T)\<close>, every field zero.
\<close>

record TextFormatter =
  FullTimestamp :: bool
  DisableTimestamp :: bool
  TimestampFormat :: string

definition new_TextFormatter :: TextFormatter where
  "new_TextFormatter =
     \<lparr>FullTimestamp = False, DisableTimestamp = False, TimestampFormat = []\<rparr>"

record JSONFormatter =
  JSON_DisableTimestamp :: bool

definition new_JSONFormatter :: JSONFormatter where
  "new_JSONFormatter = \<lparr>JSON_DisableTimestamp = False\<rparr>"

datatype Formatter =
    logrus_TextFormatter TextFormatter
  | log_TextFormatter TextFormatter
  | logrus_JSONFormatter JSONFormatter

text \<open>
  The \<^verbatim>\<open>DisableTimestamp\<close> field of whichever formatter is installed. A logrus
  formatter writes the time of an entry unless this field is set, so a formatter
  leaves the timestamp out exactly when \<open>timestamp_disabled\<close> holds.
\<close>

fun timestamp_disabled :: "Formatter \<Rightarrow> bool" where
  "timestamp_disabled (logrus_TextFormatter f) = DisableTimestamp f"
| "timestamp_disabled (log_TextFormatter f) = DisableTimestamp f"
| "timestamp_disabled (logrus_JSONFormatter f) = JSON_DisableTimestamp f"

datatype Level =
  PanicLevel | FatalLevel | ErrorLevel | WarnLevel | InfoLevel | DebugLevel | TraceLevel

text \<open>
  \<^verbatim>\<open>logrus.Logger\<close>, and \<^verbatim>\<open>logrus.New()\<close>: output on standard error, a fresh
  \<^verbatim>\<open>logrus.TextFormatter\<close>, level info.
\<close>

record Logger =
  Logger_Out :: Writer
  Formatter :: Formatter
  Level :: Level

definition logrus_New :: Logger where
  "logrus_New =
     \<lparr>Logger_Out = os_Stderr, Formatter = logrus_TextFormatter new_TextFormatter,
      Level = InfoLevel\<rparr>"

text \<open>\<^verbatim>\<open>logrus.Entry\<close>, as \<^verbatim>\<open>logrus.NewEntry(logger)\<close> builds it.\<close>

datatype Entry = NewEntry Logger

text \<open>The values of \<^verbatim>\<open>log.LoggerType\<close>; \<open>OTHER\<close> is any value the switch does not list.\<close>

datatype LoggerType = QUIET | BASIC | FANCY | JSON | OTHER

text \<open>
  The configuration record, with the fields the options read:
  \<^verbatim>\<open>Config.Log.Type\<close>, \<^verbatim>\<open>Config.Log.Level\<close>, \<^verbatim>\<open>Config.Log.Timestamps\<close>,
  \<^verbatim>\<open>Config.NoPrompt\<close>, \<^verbatim>\<open>Config.Pager\<close>, \<^verbatim>\<open>Config.HTTPUnixSocket\<close> and
  \<^verbatim>\<open>Config.Paths.Plugins\<close>. A configuration manager that is present always
  carries its configuration.
\<close>

record Log =
  Log_Type :: string
  Log_Level :: string
  Timestamps :: bool

record Paths =
  Plugins :: string

record Config =
  Log :: Log
  NoPrompt :: bool
  Pager :: string
  HTTPUnixSocket :: string
  Paths :: Paths

record ConfigManager =
  Config :: Config

datatype HTTPClient = HTTPClient nat

datatype PackageManager = PackageManager nat

datatype PluginManager = PluginManager nat

text \<open>A \<^verbatim>\<open>cobra.Command\<close>, by its name.\<close>

type_synonym Command = string

subsection \<open>The process and the packages outside the file\<close>

text \<open>
  Everything \<^verbatim>\<open>options.go\<close> calls in other packages is a parameter of the model:
  \<^item> \<open>LookupEnv\<close>: \<^verbatim>\<open>os.LookupEnv\<close>, the environment of the process;
  \<^item> \<open>L\<close>: the package variable \<^verbatim>\<open>log.L\<close>, a pointer (\<open>None\<close> is \<^verbatim>\<open>nil\<close>);
  \<^item> \<open>LoggerTypeFromString\<close> and \<open>Levels\<close>: \<^verbatim>\<open>log.LoggerTypeFromString\<close> and the
    map \<^verbatim>\<open>log.Levels()\<close>;
  \<^item> \<open>NewConfigManager\<close>: the result of
    \<^verbatim>\<open>config.NewConfigManager(config.WithDefaultConfigFile())\<close>;
  \<^item> \<open>ParseFlags\<close>: the configuration after \<^verbatim>\<open>AttributeFlags(cmd, cfgm.Config)\<close>
    and \<^verbatim>\<open>cmd.ParseFlags(os.Args[1:])\<close>, which write flag values into it;
  \<^item> \<open>System_Out\<close>: the output channel \<^verbatim>\<open>iostreams.System()\<close> opens;
  \<^item> \<open>NewHTTPClient\<close>, \<open>NewUmbrellaManager\<close>, \<open>NewPluginManager\<close>: the factories
    \<^verbatim>\<open>httpclient.NewHTTPClient\<close>, \<^verbatim>\<open>packmanager.NewUmbrellaManager\<close> and
    \<^verbatim>\<open>plugins.NewPluginManager\<close> (called with \<^verbatim>\<open>nil\<close> as second argument).
  A factory that can fail returns its error on the left.
\<close>

record world =
  LookupEnv :: "string \<Rightarrow> string option"
  L :: "Entry option"
  LoggerTypeFromString :: "string \<Rightarrow> LoggerType"
  Levels :: "string \<Rightarrow> Level option"
  NewConfigManager :: "error + ConfigManager"
  ParseFlags :: "Command \<Rightarrow> Config \<Rightarrow> Config"
  System_Out :: Writer
  NewHTTPClient :: "IOStreams \<Rightarrow> string \<Rightarrow> bool \<Rightarrow> error + HTTPClient"
  NewUmbrellaManager :: PackageManager
  NewPluginManager :: "string \<Rightarrow> PluginManager"

text \<open>\<^verbatim>\<open>os.Getenv\<close>: the empty string for a variable that is not set.\<close>

definition Getenv :: "world \<Rightarrow> string \<Rightarrow> string" where
  "Getenv w name = (case LookupEnv w name of None \<Rightarrow> [] | Some v \<Rightarrow> v)"

text \<open>
  Modelled from the spec: \<^verbatim>\<open>iostreams.System()\<close>, \<^verbatim>\<open>SetPager\<close> and
  \<^verbatim>\<open>SetNeverPrompt\<close> of package \<^verbatim>\<open>iostreams\<close> are not in the file. The spec's stream
  provider is a "construct-from-environment factory returning a handle exposing an
  output channel, prompt-suppression toggle, and pager-setting mutator", and the
  pager it starts with is "the generic pager environment variable" \<^verbatim>\<open>PAGER\<close>, else
  "built-in default (no pager)".
\<close>

definition System :: "world \<Rightarrow> IOStreams" where
  "System w =
     \<lparr>Out = System_Out w, pagerCommand = Getenv w ''PAGER'', neverPrompt = False\<rparr>"

definition SetPager :: "string \<Rightarrow> IOStreams \<Rightarrow> IOStreams" where
  "SetPager cmd io = io\<lparr>pagerCommand := cmd\<rparr>"

definition SetNeverPrompt :: "bool \<Rightarrow> IOStreams \<Rightarrow> IOStreams" where
  "SetNeverPrompt v io = io\<lparr>neverPrompt := v\<rparr>"

subsection \<open>CliOptions and the options\<close>

text \<open>Every field is a pointer or an interface: \<open>None\<close> is \<^verbatim>\<open>nil\<close>, the field unset.\<close>

record CliOptions =
  ioStreams :: "IOStreams option"
  logger :: "Entry option"
  configManager :: "ConfigManager option"
  packageManager :: "PackageManager option"
  pluginManager :: "PluginManager option"
  httpClient :: "HTTPClient option"

type_synonym CliOption = "CliOptions \<Rightarrow> error option \<times> CliOptions"

text \<open>The zero value \<^verbatim>\<open>CliOptions{}\<close>.\<close>

definition empty_CliOptions :: CliOptions where
  "empty_CliOptions =
     \<lparr>ioStreams = None, logger = None, configManager = None, packageManager = None,
      pluginManager = None, httpClient = None\<rparr>"

text \<open>
  The formatter of \<^verbatim>\<open>case log.BASIC\<close> and of \<^verbatim>\<open>case log.FANCY\<close> (the two cases
  have the same body): a \<^verbatim>\<open>log.TextFormatter\<close> with \<^verbatim>\<open>FullTimestamp\<close> and
  \<^verbatim>\<open>DisableTimestamp\<close> set, then either the timestamp enabled again or the format
  \<^verbatim>\<open>">"\<close>.
\<close>

definition text_formatter :: "bool \<Rightarrow> TextFormatter" where
  "text_formatter timestamps =
     (let formatter = new_TextFormatter;
          formatter = formatter\<lparr>FullTimestamp := True\<rparr>;
          formatter = formatter\<lparr>DisableTimestamp := True\<rparr>
      in if timestamps then formatter\<lparr>DisableTimestamp := False\<rparr>
         else formatter\<lparr>TimestampFormat := ''>''\<rparr>)"

text \<open>The formatter of \<^verbatim>\<open>case log.JSON\<close>.\<close>

definition json_formatter :: "bool \<Rightarrow> JSONFormatter" where
  "json_formatter timestamps =
     (let formatter = new_JSONFormatter;
          formatter = formatter\<lparr>JSON_DisableTimestamp := True\<rparr>
      in if timestamps then formatter\<lparr>JSON_DisableTimestamp := False\<rparr> else formatter)"

text \<open>
  \<^verbatim>\<open>WithDefaultLogger\<close>. The second test of \<^verbatim>\<open>copts.configManager == nil\<close> (lines
  53 to 55 of the file) is kept; it stands after the early return of the first.
  The switch has no default: another logger type keeps the formatter of
  \<^verbatim>\<open>logrus.New()\<close>.
\<close>

definition WithDefaultLogger :: "world \<Rightarrow> CliOption" where
  "WithDefaultLogger w copts =
     (if logger copts \<noteq> None then (None, copts)
      else case configManager copts of
        None \<Rightarrow> (None, copts\<lparr>logger := L w\<rparr>)
      | Some cm \<Rightarrow>
          (let lg = logrus_New;
               copts = (if configManager copts = None then copts\<lparr>logger := L w\<rparr>
                        else copts);
               lg = (case LoggerTypeFromString w (Log_Type (Log (Config cm))) of
                       QUIET \<Rightarrow> lg\<lparr>Formatter := logrus_TextFormatter new_TextFormatter\<rparr>
                     | BASIC \<Rightarrow>
                         lg\<lparr>Formatter :=
                              log_TextFormatter (text_formatter (Timestamps (Log (Config cm))))\<rparr>
                     | FANCY \<Rightarrow>
                         lg\<lparr>Formatter :=
                              log_TextFormatter (text_formatter (Timestamps (Log (Config cm))))\<rparr>
                     | JSON \<Rightarrow>
                         lg\<lparr>Formatter :=
                              logrus_JSONFormatter (json_formatter (Timestamps (Log (Config cm))))\<rparr>
                     | OTHER \<Rightarrow> lg);
               lg = (case Levels w (Log_Level (Log (Config cm))) of
                       None \<Rightarrow> lg\<lparr>Level := InfoLevel\<rparr>
                     | Some level \<Rightarrow> lg\<lparr>Level := level\<rparr>);
               lg = (case ioStreams copts of
                       Some io \<Rightarrow> lg\<lparr>Logger_Out := Out io\<rparr>
                     | None \<Rightarrow> lg)
           in (None, copts\<lparr>logger := Some (NewEntry lg)\<rparr>)))"

definition WithConfigManager :: "ConfigManager option \<Rightarrow> CliOption" where
  "WithConfigManager cfgm copts = (None, copts\<lparr>configManager := cfgm\<rparr>)"

definition WithDefaultConfigManager :: "world \<Rightarrow> Command \<Rightarrow> CliOption" where
  "WithDefaultConfigManager w cmd copts =
     (case NewConfigManager w of
        Inl err \<Rightarrow> (Some err, copts)
      | Inr cfgm \<Rightarrow>
          (let cfgm = cfgm\<lparr>Config := ParseFlags w cmd (Config cfgm)\<rparr>
           in (None, copts\<lparr>configManager := Some cfgm\<rparr>)))"

definition WithIOStreams :: "IOStreams option \<Rightarrow> CliOption" where
  "WithIOStreams io copts = (None, copts\<lparr>ioStreams := io\<rparr>)"

definition WithDefaultIOStreams :: "world \<Rightarrow> CliOption" where
  "WithDefaultIOStreams w copts =
     (if ioStreams copts \<noteq> None then (None, copts)
      else
        (let io = System w;
             io = (case configManager copts of
                     None \<Rightarrow> io
                   | Some cm \<Rightarrow>
                       (let io = (if NoPrompt (Config cm) then SetNeverPrompt True io else io)
                        in if Pager (Config cm) \<noteq> [] then SetPager (Pager (Config cm)) io
                           else io));
             io = (case LookupEnv w ''KRAFTKIT_PAGER'' of
                     Some kkPager \<Rightarrow> SetPager kkPager io
                   | None \<Rightarrow> io)
         in (None, copts\<lparr>ioStreams := Some io\<rparr>)))"

definition WithHTTPClient :: "HTTPClient option \<Rightarrow> CliOption" where
  "WithHTTPClient client copts = (None, copts\<lparr>httpClient := client\<rparr>)"

definition WithDefaultHTTPClient :: "world \<Rightarrow> CliOption" where
  "WithDefaultHTTPClient w copts =
     (if httpClient copts \<noteq> None then (None, copts)
      else case configManager copts of
        None \<Rightarrow> (Some (Errorf ''cannot access config manager''), copts)
      | Some cm \<Rightarrow>
          (case ioStreams copts of
             None \<Rightarrow> (Some (Errorf ''cannot access IO streams''), copts)
           | Some io \<Rightarrow>
               (case NewHTTPClient w io (HTTPUnixSocket (Config cm)) True of
                  Inl err \<Rightarrow> (Some err, copts)
                | Inr client \<Rightarrow> (None, copts\<lparr>httpClient := Some client\<rparr>))))"

definition WithPackageManager :: "PackageManager option \<Rightarrow> CliOption" where
  "WithPackageManager pm copts = (None, copts\<lparr>packageManager := pm\<rparr>)"

definition WithDefaultPackageManager :: "world \<Rightarrow> CliOption" where
  "WithDefaultPackageManager w copts =
     (if packageManager copts \<noteq> None then (None, copts)
      else (None, copts\<lparr>packageManager := Some (NewUmbrellaManager w)\<rparr>))"

definition WithPluginManager :: "PluginManager option \<Rightarrow> CliOption" where
  "WithPluginManager pm copts = (None, copts\<lparr>pluginManager := pm\<rparr>)"

definition WithDefaultPluginManager :: "world \<Rightarrow> CliOption" where
  "WithDefaultPluginManager w copts =
     (if pluginManager copts \<noteq> None then (None, copts)
      else case configManager copts of
        None \<Rightarrow> (Some (Errorf ''cannot access config manager''), copts)
      | Some cm \<Rightarrow>
          (None, copts\<lparr>pluginManager :=
                   Some (NewPluginManager w (Plugins (Paths (Config cm))))\<rparr>))"

subsection \<open>A pass over a list of options\<close>

text \<open>
  Modelled from the spec: the loop that applies the options is not in the file
  (\<^verbatim>\<open>options.go\<close> only declares them). The spec's composer is
  "Apply(context, steps) -> error": "Steps are applied strictly in the given order;
  each step receives the context by mutable reference", and "If a step fails,
  application halts immediately and the error is returned to the caller with no
  further steps run; the context is left in a partially-populated" state.
\<close>

fun Apply :: "CliOptions \<Rightarrow> CliOption list \<Rightarrow> error option \<times> CliOptions" where
  "Apply copts [] = (None, copts)"
| "Apply copts (opt # opts) =
     (case opt copts of
        (Some err, copts') \<Rightarrow> (Some err, copts')
      | (None, copts') \<Rightarrow> Apply copts' opts)"

text \<open>
  The eleven options of the file by name, so that a property can speak about the
  options a pass is made of; \<open>option_of\<close> gives the closure each one returns.
\<close>

datatype step =
    Step_WithDefaultLogger
  | Step_WithConfigManager "ConfigManager option"
  | Step_WithDefaultConfigManager Command
  | Step_WithIOStreams "IOStreams option"
  | Step_WithDefaultIOStreams
  | Step_WithHTTPClient "HTTPClient option"
  | Step_WithDefaultHTTPClient
  | Step_WithPackageManager "PackageManager option"
  | Step_WithDefaultPackageManager
  | Step_WithPluginManager "PluginManager option"
  | Step_WithDefaultPluginManager

fun option_of :: "world \<Rightarrow> step \<Rightarrow> CliOption" where
  "option_of w Step_WithDefaultLogger = WithDefaultLogger w"
| "option_of w (Step_WithConfigManager cfgm) = WithConfigManager cfgm"
| "option_of w (Step_WithDefaultConfigManager cmd) = WithDefaultConfigManager w cmd"
| "option_of w (Step_WithIOStreams io) = WithIOStreams io"
| "option_of w Step_WithDefaultIOStreams = WithDefaultIOStreams w"
| "option_of w (Step_WithHTTPClient client) = WithHTTPClient client"
| "option_of w Step_WithDefaultHTTPClient = WithDefaultHTTPClient w"
| "option_of w (Step_WithPackageManager pm) = WithPackageManager pm"
| "option_of w Step_WithDefaultPackageManager = WithDefaultPackageManager w"
| "option_of w (Step_WithPluginManager pm) = WithPluginManager pm"
| "option_of w Step_WithDefaultPluginManager = WithDefaultPluginManager w"

text \<open>The five options that test their own field against \<^verbatim>\<open>nil\<close> first.\<close>

fun guarded_default :: "step \<Rightarrow> bool" where
  "guarded_default Step_WithDefaultLogger = True"
| "guarded_default Step_WithDefaultIOStreams = True"
| "guarded_default Step_WithDefaultHTTPClient = True"
| "guarded_default Step_WithDefaultPackageManager = True"
| "guarded_default Step_WithDefaultPluginManager = True"
| "guarded_default s = False"

datatype field =
  F_ioStreams | F_logger | F_configManager | F_packageManager | F_pluginManager | F_httpClient

text \<open>The field an option is about.\<close>

fun aspect :: "step \<Rightarrow> field" where
  "aspect Step_WithDefaultLogger = F_logger"
| "aspect (Step_WithConfigManager cfgm) = F_configManager"
| "aspect (Step_WithDefaultConfigManager cmd) = F_configManager"
| "aspect (Step_WithIOStreams io) = F_ioStreams"
| "aspect Step_WithDefaultIOStreams = F_ioStreams"
| "aspect (Step_WithHTTPClient client) = F_httpClient"
| "aspect Step_WithDefaultHTTPClient = F_httpClient"
| "aspect (Step_WithPackageManager pm) = F_packageManager"
| "aspect Step_WithDefaultPackageManager = F_packageManager"
| "aspect (Step_WithPluginManager pm) = F_pluginManager"
| "aspect Step_WithDefaultPluginManager = F_pluginManager"

text \<open>
  \<open>assigns_unguarded s f\<close>: the option \<open>s\<close> assigns the field \<open>f\<close> with no test of
  its present value. These are the options that are not guarded defaults, each for
  the field it is about.
\<close>

definition assigns_unguarded :: "step \<Rightarrow> field \<Rightarrow> bool" where
  "assigns_unguarded s f = (\<not> guarded_default s \<and> aspect s = f)"

fun is_set :: "field \<Rightarrow> CliOptions \<Rightarrow> bool" where
  "is_set F_ioStreams c = (ioStreams c \<noteq> None)"
| "is_set F_logger c = (logger c \<noteq> None)"
| "is_set F_configManager c = (configManager c \<noteq> None)"
| "is_set F_packageManager c = (packageManager c \<noteq> None)"
| "is_set F_pluginManager c = (pluginManager c \<noteq> None)"
| "is_set F_httpClient c = (httpClient c \<noteq> None)"

text \<open>\<open>same_field f c c'\<close>: the two records hold the same value in field \<open>f\<close>.\<close>

fun same_field :: "field \<Rightarrow> CliOptions \<Rightarrow> CliOptions \<Rightarrow> bool" where
  "same_field F_ioStreams c c' = (ioStreams c = ioStreams c')"
| "same_field F_logger c c' = (logger c = logger c')"
| "same_field F_configManager c c' = (configManager c = configManager c')"
| "same_field F_packageManager c c' = (packageManager c = packageManager c')"
| "same_field F_pluginManager c c' = (pluginManager c = pluginManager c')"
| "same_field F_httpClient c c' = (httpClient c = httpClient c')"

subsection \<open>Concrete values\<close>

definition example_config :: Config where
  "example_config =
     \<lparr>Log = \<lparr>Log_Type = ''basic'', Log_Level = ''debug'', Timestamps = True\<rparr>,
      NoPrompt = False, Pager = ''less'', HTTPUnixSocket = ''/tmp/x.sock'',
      Paths = \<lparr>Plugins = ''/usr/lib/kraftkit/plugins''\<rparr>\<rparr>"

definition example_cfgm :: ConfigManager where
  "example_cfgm = \<lparr>Config = example_config\<rparr>"

definition example_io :: IOStreams where
  "example_io = \<lparr>Out = Writer 7, pagerCommand = [], neverPrompt = False\<rparr>"

definition example_entry :: Entry where
  "example_entry = NewEntry (logrus_New\<lparr>Level := WarnLevel\<rparr>)"

text \<open>
  A process with \<^verbatim>\<open>PAGER=more\<close> and no \<^verbatim>\<open>KRAFTKIT_PAGER\<close>, whose factories
  succeed.
\<close>

definition example_world :: world where
  "example_world =
     \<lparr>LookupEnv = (\<lambda>name. if name = ''PAGER'' then Some ''more'' else None),
      L = Some example_entry,
      LoggerTypeFromString =
        (\<lambda>name. if name = ''quiet'' then QUIET else if name = ''basic'' then BASIC
                 else if name = ''fancy'' then FANCY else if name = ''json'' then JSON
                 else OTHER),
      Levels = map_of [(''error'', ErrorLevel), (''warn'', WarnLevel), (''info'', InfoLevel),
                       (''debug'', DebugLevel)],
      NewConfigManager = Inr example_cfgm,
      ParseFlags = (\<lambda>cmd cfg. cfg),
      System_Out = os_Stdout,
      NewHTTPClient = (\<lambda>io socket insecure. Inr (HTTPClient 1)),
      NewUmbrellaManager = PackageManager 1,
      NewPluginManager = (\<lambda>path. PluginManager (length path))\<rparr>"

definition dial_error :: error where
  "dial_error = Errorf ''dial unix /tmp/x.sock: connect: no such file or directory''"

text \<open>The same process, with an HTTP client factory and a configuration loader that fail.\<close>

definition failing_world :: world where
  "failing_world =
     example_world\<lparr>NewConfigManager := Inl (Errorf ''open config.yaml: permission denied''),
                   NewHTTPClient := (\<lambda>io socket insecure. Inl dial_error)\<rparr>"

text \<open>The same process, started with \<^verbatim>\<open>KRAFTKIT_PAGER=\<close> (set, and empty).\<close>

definition empty_pager_world :: world where
  "empty_pager_world =
     example_world\<lparr>LookupEnv :=
       (\<lambda>name. if name = ''KRAFTKIT_PAGER'' then Some [] else LookupEnv example_world name)\<rparr>"

text \<open>A record that holds a configuration manager and streams, and nothing else.\<close>

definition ready_CliOptions :: CliOptions where
  "ready_CliOptions =
     empty_CliOptions\<lparr>configManager := Some example_cfgm, ioStreams := Some example_io\<rparr>"

definition config_CliOptions :: CliOptions where
  "config_CliOptions = empty_CliOptions\<lparr>configManager := Some example_cfgm\<rparr>"

definition other_io :: IOStreams where
  "other_io = \<lparr>Out = os_Stdout, pagerCommand = ''less'', neverPrompt = True\<rparr>"

text \<open>Configurations with the other log types; the level names are not in the map.\<close>

definition quiet_cfgm :: ConfigManager where
  "quiet_cfgm =
     \<lparr>Config = example_config
        \<lparr>Log := \<lparr>Log_Type = ''quiet'', Log_Level = [], Timestamps = False\<rparr>\<rparr>\<rparr>"

definition fancy_cfgm :: ConfigManager where
  "fancy_cfgm =
     \<lparr>Config = example_config
        \<lparr>Log := \<lparr>Log_Type = ''fancy'', Log_Level = ''verbose'', Timestamps = False\<rparr>\<rparr>\<rparr>"

definition json_cfgm :: ConfigManager where
  "json_cfgm =
     \<lparr>Config = example_config
        \<lparr>Log := \<lparr>Log_Type = ''json'', Log_Level = ''warn'', Timestamps = False\<rparr>\<rparr>\<rparr>"

definition quiet_CliOptions :: CliOptions where
  "quiet_CliOptions =
     empty_CliOptions\<lparr>configManager := Some quiet_cfgm, ioStreams := Some example_io\<rparr>"

text \<open>A process with an empty environment, and one with \<^verbatim>\<open>KRAFTKIT_PAGER=bat\<close>.\<close>

definition no_env_world :: world where
  "no_env_world = example_world\<lparr>LookupEnv := (\<lambda>name. None)\<rparr>"

definition dedicated_pager_world :: world where
  "dedicated_pager_world =
     example_world\<lparr>LookupEnv :=
       (\<lambda>name. if name = ''KRAFTKIT_PAGER'' then Some ''bat''
                else LookupEnv example_world name)\<rparr>"

text \<open>
  The pager of the configuration file as \<^verbatim>\<open>WithDefaultIOStreams\<close> reads it: the
  field \<^verbatim>\<open>Config.Pager\<close>, and the empty string when no configuration manager is set.
\<close>

definition config_pager :: "CliOptions \<Rightarrow> string" where
  "config_pager c = (case configManager c of None \<Rightarrow> [] | Some cm \<Rightarrow> Pager (Config cm))"

section \<open>Auxiliary facts\<close>

subsection \<open>What each option does\<close>

lemma guard_logger: "logger c \<noteq> None \<Longrightarrow> WithDefaultLogger w c = (None, c)"
  by (simp add: WithDefaultLogger_def)

lemma guard_io: "ioStreams c \<noteq> None \<Longrightarrow> WithDefaultIOStreams w c = (None, c)"
  by (simp add: WithDefaultIOStreams_def)

lemma guard_http: "httpClient c \<noteq> None \<Longrightarrow> WithDefaultHTTPClient w c = (None, c)"
  by (simp add: WithDefaultHTTPClient_def)

lemma guard_pm: "packageManager c \<noteq> None \<Longrightarrow> WithDefaultPackageManager w c = (None, c)"
  by (simp add: WithDefaultPackageManager_def)

lemma guard_plug: "pluginManager c \<noteq> None \<Longrightarrow> WithDefaultPluginManager w c = (None, c)"
  by (simp add: WithDefaultPluginManager_def)

lemma idem_logger: "WithDefaultLogger w (snd (WithDefaultLogger w c)) = WithDefaultLogger w c"
  by (auto simp: WithDefaultLogger_def Let_def split: option.splits LoggerType.splits)

lemma idem_io:
  "WithDefaultIOStreams w (snd (WithDefaultIOStreams w c)) = WithDefaultIOStreams w c"
  by (auto simp: WithDefaultIOStreams_def Let_def split: option.splits)

lemma idem_http:
  "WithDefaultHTTPClient w (snd (WithDefaultHTTPClient w c)) = WithDefaultHTTPClient w c"
  by (auto simp: WithDefaultHTTPClient_def split: option.splits sum.splits)

lemma idem_pm:
  "WithDefaultPackageManager w (snd (WithDefaultPackageManager w c)) =
     WithDefaultPackageManager w c"
  by (auto simp: WithDefaultPackageManager_def)

lemma idem_plug:
  "WithDefaultPluginManager w (snd (WithDefaultPluginManager w c)) =
     WithDefaultPluginManager w c"
  by (auto simp: WithDefaultPluginManager_def split: option.splits)

text \<open>The logger that \<^verbatim>\<open>WithDefaultLogger\<close> builds from a configuration, field by field.\<close>

lemma logger_step:
  assumes "logger c = None" and "configManager c = Some cm"
  shows "WithDefaultLogger w c =
    (None, c\<lparr>logger := Some (NewEntry
       \<lparr>Logger_Out = (case ioStreams c of Some io \<Rightarrow> Out io | None \<Rightarrow> os_Stderr),
        Formatter =
          (case LoggerTypeFromString w (Log_Type (Log (Config cm))) of
             QUIET \<Rightarrow> logrus_TextFormatter new_TextFormatter
           | BASIC \<Rightarrow> log_TextFormatter (text_formatter (Timestamps (Log (Config cm))))
           | FANCY \<Rightarrow> log_TextFormatter (text_formatter (Timestamps (Log (Config cm))))
           | JSON \<Rightarrow> logrus_JSONFormatter (json_formatter (Timestamps (Log (Config cm))))
           | OTHER \<Rightarrow> logrus_TextFormatter new_TextFormatter),
        Level = (case Levels w (Log_Level (Log (Config cm))) of
                   None \<Rightarrow> InfoLevel
                 | Some l \<Rightarrow> l)\<rparr>)\<rparr>)"
  using assms
  by (simp add: WithDefaultLogger_def Let_def logrus_New_def
      split: option.splits LoggerType.splits)

lemma text_formatter_fields:
  "text_formatter ts =
     \<lparr>FullTimestamp = True, DisableTimestamp = (\<not> ts),
      TimestampFormat = (if ts then [] else ''>'')\<rparr>"
  by (simp add: text_formatter_def new_TextFormatter_def Let_def)

lemma json_formatter_fields: "json_formatter ts = \<lparr>JSON_DisableTimestamp = (\<not> ts)\<rparr>"
  by (simp add: json_formatter_def new_JSONFormatter_def Let_def)

text \<open>The pager of the streams that \<^verbatim>\<open>WithDefaultIOStreams\<close> builds.\<close>

lemma io_step:
  assumes "ioStreams c = None"
  shows "\<exists>io. WithDefaultIOStreams w c = (None, c\<lparr>ioStreams := Some io\<rparr>) \<and>
     pagerCommand io =
       (case LookupEnv w ''KRAFTKIT_PAGER'' of
          Some kk \<Rightarrow> kk
        | None \<Rightarrow>
            if config_pager c \<noteq> [] then config_pager c
            else (case LookupEnv w ''PAGER'' of Some p \<Rightarrow> p | None \<Rightarrow> []))"
  using assms
  by (auto simp: WithDefaultIOStreams_def Let_def System_def SetPager_def SetNeverPrompt_def
      Getenv_def config_pager_def split: option.splits)

subsection \<open>Fields along a pass\<close>

lemma Apply_append:
  "Apply c (xs @ ys) =
     (case Apply c xs of (Some e, c') \<Rightarrow> (Some e, c') | (None, c') \<Rightarrow> Apply c' ys)"
  by (induction xs arbitrary: c) (auto split: prod.splits option.splits)

lemma same_field_refl: "same_field f c c"
  by (cases f) simp_all

lemma same_field_trans: "same_field f a b \<Longrightarrow> same_field f b c \<Longrightarrow> same_field f a c"
  by (cases f) simp_all

lemma is_set_same: "same_field f a b \<Longrightarrow> is_set f b \<Longrightarrow> is_set f a"
  by (cases f) simp_all

lemma no_unguarded_logger: "\<not> assigns_unguarded s F_logger"
  by (cases s) (simp_all add: assigns_unguarded_def)

text \<open>One option: a field that is set survives, unless the option assigns it unguarded.\<close>

lemma step_keeps:
  assumes "is_set f c" and "\<not> assigns_unguarded s f"
  shows "same_field f (snd (option_of w s c)) c"
  using assms
  by (cases s; cases f)
     (auto simp: assigns_unguarded_def WithDefaultLogger_def WithConfigManager_def
        WithDefaultConfigManager_def WithIOStreams_def WithDefaultIOStreams_def
        WithHTTPClient_def WithDefaultHTTPClient_def WithPackageManager_def
        WithDefaultPackageManager_def WithPluginManager_def WithDefaultPluginManager_def
        Let_def split: option.splits sum.splits LoggerType.splits)

text \<open>A whole pass, by induction on the list of options with the record generalised.\<close>

lemma pass_keeps:
  assumes "is_set f c" and "\<forall>s \<in> set steps. \<not> assigns_unguarded s f"
  shows "same_field f (snd (Apply c (map (option_of w) steps))) c"
  using assms
proof (induction steps arbitrary: c)
  case Nil
  then show ?case by (simp add: same_field_refl)
next
  case (Cons s steps)
  have k: "same_field f (snd (option_of w s c)) c"
    using Cons.prems by (simp add: step_keeps)
  show ?case
  proof (cases "fst (option_of w s c)")
    case None
    then have a: "Apply c (map (option_of w) (s # steps)) =
        Apply (snd (option_of w s c)) (map (option_of w) steps)"
      by (cases "option_of w s c") simp
    have "is_set f (snd (option_of w s c))"
      using k Cons.prems(1) by (rule is_set_same)
    then have "same_field f (snd (Apply (snd (option_of w s c)) (map (option_of w) steps)))
        (snd (option_of w s c))"
      using Cons.IH Cons.prems(2) by simp
    then show ?thesis using k a by (metis same_field_trans)
  next
    case (Some e)
    then have "Apply c (map (option_of w) (s # steps)) = option_of w s c"
      by (cases "option_of w s c") simp
    then show ?thesis using k by simp
  qed
qed

lemma pass_keeps_after:
  assumes "is_set f (snd (Apply c (map (option_of w) pre)))"
    and "\<forall>s \<in> set post. \<not> assigns_unguarded s f"
  shows "same_field f (snd (Apply c (map (option_of w) (pre @ post))))
           (snd (Apply c (map (option_of w) pre)))"
proof (cases "Apply c (map (option_of w) pre)")
  case (Pair r c')
  show ?thesis
  proof (cases r)
    case None
    with Pair have "Apply c (map (option_of w) (pre @ post)) =
        Apply c' (map (option_of w) post)"
      by (simp add: Apply_append)
    moreover have "is_set f c'" using assms(1) Pair by simp
    ultimately show ?thesis using pass_keeps [OF _ assms(2)] Pair by simp
  next
    case (Some e)
    with Pair have "Apply c (map (option_of w) (pre @ post)) = (Some e, c')"
      by (simp add: Apply_append)
    then show ?thesis using Pair by (simp add: same_field_refl)
  qed
qed

section \<open>The properties C1 to C10\<close>

subsection \<open>C1: fields that are set, along a pass\<close>

text \<open>
  C1, as the code has it. Take any pass, cut anywhere into the options before and the
  options after. If a field is set after the first part, then at the end of the pass
  it holds the same value, provided no option of the second part assigns that field
  unguarded. The options that assign unguarded are the explicit ones
  (\<^verbatim>\<open>WithConfigManager\<close>, \<^verbatim>\<open>WithIOStreams\<close>, \<^verbatim>\<open>WithHTTPClient\<close>,
  \<^verbatim>\<open>WithPackageManager\<close>, \<^verbatim>\<open>WithPluginManager\<close>) and
  \<^verbatim>\<open>WithDefaultConfigManager\<close>, each for its own field. No option assigns the logger
  unguarded, so for the logger the proviso holds in every pass.
\<close>

theorem set_field_kept_by_guarded_steps:
  assumes "is_set f (snd (Apply c (map (option_of w) pre)))"
  shows "((\<forall>s \<in> set post. \<not> assigns_unguarded s f) \<longrightarrow>
            same_field f (snd (Apply c (map (option_of w) (pre @ post))))
              (snd (Apply c (map (option_of w) pre))))
       \<and> (f = F_logger \<longrightarrow>
            same_field f (snd (Apply c (map (option_of w) (pre @ post))))
              (snd (Apply c (map (option_of w) pre))))"
proof (intro conjI impI)
  assume "\<forall>s \<in> set post. \<not> assigns_unguarded s f"
  with assms show "same_field f (snd (Apply c (map (option_of w) (pre @ post))))
      (snd (Apply c (map (option_of w) pre)))"
    by (rule pass_keeps_after)
next
  assume "f = F_logger"
  then have "\<forall>s \<in> set post. \<not> assigns_unguarded s f"
    by (simp add: no_unguarded_logger)
  with assms show "same_field f (snd (Apply c (map (option_of w) (pre @ post))))
      (snd (Apply c (map (option_of w) pre)))"
    by (rule pass_keeps_after)
qed

text \<open>
  An instance: a plugin manager supplied first survives the default plugin manager
  option, explicit streams and the default logger.
\<close>

theorem set_field_kept_by_guarded_steps_witness:
  "is_set F_pluginManager
     (snd (Apply empty_CliOptions (map (option_of example_world)
        [Step_WithPluginManager (Some (PluginManager 9)),
         Step_WithConfigManager (Some example_cfgm)])))
   \<and> same_field F_pluginManager
     (snd (Apply empty_CliOptions (map (option_of example_world)
        ([Step_WithPluginManager (Some (PluginManager 9)),
          Step_WithConfigManager (Some example_cfgm)]
          @ [Step_WithDefaultPluginManager, Step_WithIOStreams (Some example_io),
             Step_WithDefaultLogger]))))
     (snd (Apply empty_CliOptions (map (option_of example_world)
        [Step_WithPluginManager (Some (PluginManager 9)),
         Step_WithConfigManager (Some example_cfgm)])))"
proof -
  have a: "is_set F_pluginManager
     (snd (Apply empty_CliOptions (map (option_of example_world)
        [Step_WithPluginManager (Some (PluginManager 9)),
         Step_WithConfigManager (Some example_cfgm)])))"
    by (simp add: WithPluginManager_def WithConfigManager_def empty_CliOptions_def)
  have b: "\<forall>s \<in> set [Step_WithDefaultPluginManager, Step_WithIOStreams (Some example_io),
             Step_WithDefaultLogger]. \<not> assigns_unguarded s F_pluginManager"
    by (simp add: assigns_unguarded_def)
  show ?thesis
    using a b set_field_kept_by_guarded_steps [OF a,
        of "[Step_WithDefaultPluginManager, Step_WithIOStreams (Some example_io),
             Step_WithDefaultLogger]"]
    by blast
qed

text \<open>
  C1 as stated fails: after \<^verbatim>\<open>WithIOStreams(a)\<close> the streams are set, and a later
  \<^verbatim>\<open>WithIOStreams(b)\<close> in the same pass replaces them.
\<close>

theorem explicit_supply_overwrites:
  "is_set F_ioStreams
     (snd (Apply empty_CliOptions (map (option_of example_world)
        [Step_WithIOStreams (Some example_io)])))
   \<and> \<not> same_field F_ioStreams
     (snd (Apply empty_CliOptions (map (option_of example_world)
        [Step_WithIOStreams (Some example_io), Step_WithIOStreams (Some other_io)])))
     (snd (Apply empty_CliOptions (map (option_of example_world)
        [Step_WithIOStreams (Some example_io)])))"
  by (simp add: WithIOStreams_def empty_CliOptions_def example_io_def other_io_def)

subsection \<open>C2: the precedence of the pager\<close>

text \<open>
  C2. When the streams are unset, \<^verbatim>\<open>WithDefaultIOStreams\<close> succeeds and stores
  streams whose pager is: the value of \<^verbatim>\<open>KRAFTKIT_PAGER\<close> when that variable is in
  the environment; else the pager of the configuration when it is not empty; else the
  value of \<^verbatim>\<open>PAGER\<close> when that variable is in the environment; else no pager. So a
  lower source applies only when every higher one is absent or empty.
\<close>

theorem WithDefaultIOStreams_pager_precedence:
  assumes "ioStreams c = None"
  shows "\<exists>io. WithDefaultIOStreams w c = (None, c\<lparr>ioStreams := Some io\<rparr>) \<and>
     (\<forall>kk. LookupEnv w ''KRAFTKIT_PAGER'' = Some kk \<longrightarrow> pagerCommand io = kk) \<and>
     (LookupEnv w ''KRAFTKIT_PAGER'' = None \<longrightarrow>
        (config_pager c \<noteq> [] \<longrightarrow> pagerCommand io = config_pager c) \<and>
        (config_pager c = [] \<longrightarrow>
           (\<forall>p. LookupEnv w ''PAGER'' = Some p \<longrightarrow> pagerCommand io = p) \<and>
           (LookupEnv w ''PAGER'' = None \<longrightarrow> pagerCommand io = [])))"
  using io_step [OF assms, of w] by (auto split: option.splits)

text \<open>
  The four sources populated (\<^verbatim>\<open>bat\<close> wins), then removed one after the other:
  \<^verbatim>\<open>less\<close> from the configuration, \<^verbatim>\<open>more\<close> from \<^verbatim>\<open>PAGER\<close>, no pager.
\<close>

theorem WithDefaultIOStreams_pager_precedence_witness:
  "(\<exists>io. WithDefaultIOStreams dedicated_pager_world config_CliOptions =
            (None, config_CliOptions\<lparr>ioStreams := Some io\<rparr>) \<and> pagerCommand io = ''bat'')
   \<and> (\<exists>io. WithDefaultIOStreams example_world config_CliOptions =
            (None, config_CliOptions\<lparr>ioStreams := Some io\<rparr>) \<and> pagerCommand io = ''less'')
   \<and> (\<exists>io. WithDefaultIOStreams example_world empty_CliOptions =
            (None, empty_CliOptions\<lparr>ioStreams := Some io\<rparr>) \<and> pagerCommand io = ''more'')
   \<and> (\<exists>io. WithDefaultIOStreams no_env_world empty_CliOptions =
            (None, empty_CliOptions\<lparr>ioStreams := Some io\<rparr>) \<and> pagerCommand io = [])"
proof -
  have c: "ioStreams config_CliOptions = None" and e: "ioStreams empty_CliOptions = None"
    by (simp_all add: config_CliOptions_def empty_CliOptions_def)
  have p: "config_pager config_CliOptions = ''less''" "config_pager empty_CliOptions = []"
    by (simp_all add: config_pager_def config_CliOptions_def empty_CliOptions_def
        example_cfgm_def example_config_def)
  have l: "LookupEnv dedicated_pager_world ''KRAFTKIT_PAGER'' = Some ''bat''"
    "LookupEnv example_world ''KRAFTKIT_PAGER'' = None"
    "LookupEnv example_world ''PAGER'' = Some ''more''"
    "LookupEnv no_env_world ''KRAFTKIT_PAGER'' = None"
    "LookupEnv no_env_world ''PAGER'' = None"
    by (simp_all add: dedicated_pager_world_def example_world_def no_env_world_def)
  show ?thesis
    using WithDefaultIOStreams_pager_precedence [OF c, of dedicated_pager_world]
      WithDefaultIOStreams_pager_precedence [OF c, of example_world]
      WithDefaultIOStreams_pager_precedence [OF e, of example_world]
      WithDefaultIOStreams_pager_precedence [OF e, of no_env_world]
    by (simp add: p l)
qed

subsection \<open>C3: the HTTP client needs a configuration manager and streams\<close>

text \<open>
  C3. With the HTTP client unset, \<^verbatim>\<open>WithDefaultHTTPClient\<close> fails with
  "cannot access config manager" when the configuration manager is missing, and with
  "cannot access IO streams" when the configuration manager is there and the streams
  are missing. In both cases the record is as before, the HTTP client still unset.
\<close>

theorem WithDefaultHTTPClient_missing_dependency:
  assumes "httpClient c = None"
  shows "(configManager c = None \<longrightarrow>
            WithDefaultHTTPClient w c = (Some (Errorf ''cannot access config manager''), c))
       \<and> (configManager c \<noteq> None \<and> ioStreams c = None \<longrightarrow>
            WithDefaultHTTPClient w c = (Some (Errorf ''cannot access IO streams''), c))
       \<and> (configManager c = None \<or> ioStreams c = None \<longrightarrow>
            fst (WithDefaultHTTPClient w c) \<noteq> None
            \<and> httpClient (snd (WithDefaultHTTPClient w c)) = None)"
  using assms by (auto simp: WithDefaultHTTPClient_def split: option.splits)

text \<open>On the empty record, and on a record with a configuration manager only.\<close>

theorem WithDefaultHTTPClient_missing_dependency_witness:
  "httpClient empty_CliOptions = None \<and> configManager empty_CliOptions = None
   \<and> WithDefaultHTTPClient example_world empty_CliOptions =
       (Some (Errorf ''cannot access config manager''), empty_CliOptions)
   \<and> httpClient (snd (WithDefaultHTTPClient example_world empty_CliOptions)) = None
   \<and> configManager config_CliOptions \<noteq> None \<and> ioStreams config_CliOptions = None
   \<and> WithDefaultHTTPClient example_world config_CliOptions =
       (Some (Errorf ''cannot access IO streams''), config_CliOptions)"
proof -
  have e: "httpClient empty_CliOptions = None" and c: "httpClient config_CliOptions = None"
    by (simp_all add: config_CliOptions_def empty_CliOptions_def)
  have m: "configManager empty_CliOptions = None" "configManager config_CliOptions \<noteq> None"
    "ioStreams config_CliOptions = None"
    by (simp_all add: config_CliOptions_def empty_CliOptions_def)
  show ?thesis
    using WithDefaultHTTPClient_missing_dependency [OF e, of example_world]
      WithDefaultHTTPClient_missing_dependency [OF c, of example_world] e m
    by simp
qed

subsection \<open>C4: the error of a factory\<close>

text \<open>
  C4, as the code has it. When the configuration loader of
  \<^verbatim>\<open>WithDefaultConfigManager\<close> or the HTTP client factory of
  \<^verbatim>\<open>WithDefaultHTTPClient\<close> returns an error, the option returns that very error,
  with nothing added to it, and leaves the record as it was; a pass stops at that
  option with that error.
\<close>

theorem factory_error_returned_unchanged:
  "(NewConfigManager w = Inl err \<longrightarrow>
      WithDefaultConfigManager w cmd c = (Some err, c)
      \<and> Apply c (WithDefaultConfigManager w cmd # rest) = (Some err, c))
   \<and> (httpClient c = None \<and> configManager c = Some cm \<and> ioStreams c = Some io
      \<and> NewHTTPClient w io (HTTPUnixSocket (Config cm)) True = Inl err \<longrightarrow>
      WithDefaultHTTPClient w c = (Some err, c)
      \<and> Apply c (WithDefaultHTTPClient w # rest) = (Some err, c))"
  by (simp add: WithDefaultConfigManager_def WithDefaultHTTPClient_def)

text \<open>A process whose loader and whose HTTP client factory fail.\<close>

theorem factory_error_returned_unchanged_witness:
  "NewConfigManager failing_world = Inl (Errorf ''open config.yaml: permission denied'')
   \<and> WithDefaultConfigManager failing_world ''kraft'' empty_CliOptions =
       (Some (Errorf ''open config.yaml: permission denied''), empty_CliOptions)
   \<and> NewHTTPClient failing_world example_io (HTTPUnixSocket (Config example_cfgm)) True =
       Inl dial_error
   \<and> WithDefaultHTTPClient failing_world ready_CliOptions = (Some dial_error, ready_CliOptions)
   \<and> Apply ready_CliOptions
        [WithDefaultHTTPClient failing_world, WithDefaultPackageManager failing_world] =
       (Some dial_error, ready_CliOptions)"
proof -
  have a: "NewConfigManager failing_world = Inl (Errorf ''open config.yaml: permission denied'')"
    by (simp add: failing_world_def)
  have b: "httpClient ready_CliOptions = None \<and> configManager ready_CliOptions = Some example_cfgm
      \<and> ioStreams ready_CliOptions = Some example_io
      \<and> NewHTTPClient failing_world example_io (HTTPUnixSocket (Config example_cfgm)) True
          = Inl dial_error"
    by (simp add: ready_CliOptions_def empty_CliOptions_def failing_world_def)
  show ?thesis
    using a b
      factory_error_returned_unchanged [of failing_world
        "Errorf ''open config.yaml: permission denied''" "''kraft''" empty_CliOptions "[]"
        example_cfgm example_io]
      factory_error_returned_unchanged [of failing_world dial_error "''kraft''"
        ready_CliOptions "[WithDefaultPackageManager failing_world]" example_cfgm example_io]
    by simp
qed

text \<open>
  C4 as stated fails: the error \<^verbatim>\<open>WithDefaultHTTPClient\<close> returns is the error of
  the factory itself, not that error wrapped with a context.
\<close>

theorem factory_error_not_wrapped:
  "NewHTTPClient failing_world example_io (HTTPUnixSocket (Config example_cfgm)) True =
     Inl dial_error
   \<and> fst (WithDefaultHTTPClient failing_world ready_CliOptions) = Some dial_error
   \<and> \<not> wraps dial_error dial_error"
  by (simp add: WithDefaultHTTPClient_def ready_CliOptions_def empty_CliOptions_def
      failing_world_def dial_error_def)

subsection \<open>C5: the formatter of the default logger\<close>

text \<open>
  C5, as the code has it. With the logger unset and a configuration manager present,
  \<^verbatim>\<open>WithDefaultLogger\<close> succeeds and stores a logger whose formatter is:
  \<^item> for the type \<^verbatim>\<open>QUIET\<close>, a fresh \<^verbatim>\<open>logrus.TextFormatter\<close> with every field at
    its zero value, whatever the timestamp flag of the configuration; its
    \<^verbatim>\<open>DisableTimestamp\<close> is false, so the timestamp is not switched off;
  \<^item> for \<^verbatim>\<open>BASIC\<close> and \<^verbatim>\<open>FANCY\<close>, a \<^verbatim>\<open>log.TextFormatter\<close> with
    \<^verbatim>\<open>FullTimestamp\<close> set, whose \<^verbatim>\<open>DisableTimestamp\<close> is the negation of the flag
    and whose \<^verbatim>\<open>TimestampFormat\<close> is \<^verbatim>\<open>">"\<close> exactly when the flag is false;
  \<^item> for \<^verbatim>\<open>JSON\<close>, a \<^verbatim>\<open>logrus.JSONFormatter\<close> whose \<^verbatim>\<open>DisableTimestamp\<close> is the
    negation of the flag.
\<close>

theorem WithDefaultLogger_formatter_selection:
  assumes "logger c = None" and "configManager c = Some cm"
  shows "\<exists>lg. WithDefaultLogger w c = (None, c\<lparr>logger := Some (NewEntry lg)\<rparr>) \<and>
     (LoggerTypeFromString w (Log_Type (Log (Config cm))) = QUIET \<longrightarrow>
        Formatter lg = logrus_TextFormatter new_TextFormatter
        \<and> \<not> timestamp_disabled (Formatter lg)) \<and>
     (LoggerTypeFromString w (Log_Type (Log (Config cm))) = BASIC
      \<or> LoggerTypeFromString w (Log_Type (Log (Config cm))) = FANCY \<longrightarrow>
        Formatter lg = log_TextFormatter
          \<lparr>FullTimestamp = True, DisableTimestamp = (\<not> Timestamps (Log (Config cm))),
           TimestampFormat = (if Timestamps (Log (Config cm)) then [] else ''>'')\<rparr>) \<and>
     (LoggerTypeFromString w (Log_Type (Log (Config cm))) = JSON \<longrightarrow>
        Formatter lg = logrus_JSONFormatter
          \<lparr>JSON_DisableTimestamp = (\<not> Timestamps (Log (Config cm)))\<rparr>)"
  by (auto simp: logger_step [OF assms] text_formatter_fields json_formatter_fields
      new_TextFormatter_def)

text \<open>
  One configuration for each case: quiet, basic with timestamps, fancy without, JSON
  without.
\<close>

theorem WithDefaultLogger_formatter_selection_witness:
  "(\<exists>lg. WithDefaultLogger example_world quiet_CliOptions =
            (None, quiet_CliOptions\<lparr>logger := Some (NewEntry lg)\<rparr>)
          \<and> Formatter lg = logrus_TextFormatter new_TextFormatter)
   \<and> (\<exists>lg. WithDefaultLogger example_world ready_CliOptions =
            (None, ready_CliOptions\<lparr>logger := Some (NewEntry lg)\<rparr>)
          \<and> Formatter lg = log_TextFormatter
               \<lparr>FullTimestamp = True, DisableTimestamp = False, TimestampFormat = []\<rparr>)
   \<and> (\<exists>lg. WithDefaultLogger example_world (empty_CliOptions\<lparr>configManager := Some fancy_cfgm\<rparr>) =
            (None, empty_CliOptions\<lparr>configManager := Some fancy_cfgm,
                     logger := Some (NewEntry lg)\<rparr>)
          \<and> Formatter lg = log_TextFormatter
               \<lparr>FullTimestamp = True, DisableTimestamp = True, TimestampFormat = ''>''\<rparr>)
   \<and> (\<exists>lg. WithDefaultLogger example_world (empty_CliOptions\<lparr>configManager := Some json_cfgm\<rparr>) =
            (None, empty_CliOptions\<lparr>configManager := Some json_cfgm,
                     logger := Some (NewEntry lg)\<rparr>)
          \<and> Formatter lg = logrus_JSONFormatter \<lparr>JSON_DisableTimestamp = True\<rparr>)"
proof -
  have q: "logger quiet_CliOptions = None" "configManager quiet_CliOptions = Some quiet_cfgm"
    and r: "logger ready_CliOptions = None" "configManager ready_CliOptions = Some example_cfgm"
    and f: "logger (empty_CliOptions\<lparr>configManager := Some fancy_cfgm\<rparr>) = None"
      "configManager (empty_CliOptions\<lparr>configManager := Some fancy_cfgm\<rparr>) = Some fancy_cfgm"
    and j: "logger (empty_CliOptions\<lparr>configManager := Some json_cfgm\<rparr>) = None"
      "configManager (empty_CliOptions\<lparr>configManager := Some json_cfgm\<rparr>) = Some json_cfgm"
    by (simp_all add: quiet_CliOptions_def ready_CliOptions_def empty_CliOptions_def)
  have t: "LoggerTypeFromString example_world (Log_Type (Log (Config quiet_cfgm))) = QUIET"
    "LoggerTypeFromString example_world (Log_Type (Log (Config example_cfgm))) = BASIC"
    "LoggerTypeFromString example_world (Log_Type (Log (Config fancy_cfgm))) = FANCY"
    "LoggerTypeFromString example_world (Log_Type (Log (Config json_cfgm))) = JSON"
    "Timestamps (Log (Config example_cfgm))" "\<not> Timestamps (Log (Config fancy_cfgm))"
    "\<not> Timestamps (Log (Config json_cfgm))"
    by (simp_all add: example_world_def quiet_cfgm_def example_cfgm_def example_config_def
        fancy_cfgm_def json_cfgm_def)
  show ?thesis
    using WithDefaultLogger_formatter_selection [OF q, of example_world]
      WithDefaultLogger_formatter_selection [OF r, of example_world]
      WithDefaultLogger_formatter_selection [OF f, of example_world]
      WithDefaultLogger_formatter_selection [OF j, of example_world]
    by (simp add: t) blast
qed

text \<open>
  C5 as stated fails for the quiet style: the formatter installed for \<^verbatim>\<open>QUIET\<close> does
  not have its timestamp disabled, whereas the formatters of the other styles have it
  disabled when the flag is false.
\<close>

theorem quiet_formatter_keeps_timestamp:
  "LoggerTypeFromString example_world (Log_Type (Log (Config quiet_cfgm))) = QUIET
   \<and> (case logger (snd (WithDefaultLogger example_world quiet_CliOptions)) of
        Some (NewEntry lg) \<Rightarrow> \<not> timestamp_disabled (Formatter lg)
      | None \<Rightarrow> False)"
  by (simp add: WithDefaultLogger_def Let_def quiet_CliOptions_def quiet_cfgm_def
      empty_CliOptions_def example_world_def example_config_def example_io_def
      logrus_New_def new_TextFormatter_def)

subsection \<open>C6: a level name that is not known\<close>

text \<open>
  C6. With the logger unset and a configuration manager present, if the configured
  level name is not a key of \<^verbatim>\<open>log.Levels()\<close>, \<^verbatim>\<open>WithDefaultLogger\<close> returns no
  error and stores a logger whose level is info.
\<close>

theorem WithDefaultLogger_unknown_level_is_info:
  assumes "logger c = None" and "configManager c = Some cm"
    and "Levels w (Log_Level (Log (Config cm))) = None"
  shows "\<exists>lg. WithDefaultLogger w c = (None, c\<lparr>logger := Some (NewEntry lg)\<rparr>)
           \<and> Level lg = InfoLevel"
  by (intro exI conjI, rule logger_step [OF assms(1,2)]) (simp add: assms(3))

text \<open>With the empty level name, and with the name \<^verbatim>\<open>verbose\<close>.\<close>

theorem WithDefaultLogger_unknown_level_is_info_witness:
  "Levels example_world (Log_Level (Log (Config quiet_cfgm))) = None
   \<and> Log_Level (Log (Config quiet_cfgm)) = []
   \<and> (\<exists>lg. WithDefaultLogger example_world quiet_CliOptions =
             (None, quiet_CliOptions\<lparr>logger := Some (NewEntry lg)\<rparr>) \<and> Level lg = InfoLevel)
   \<and> Levels example_world (Log_Level (Log (Config fancy_cfgm))) = None
   \<and> Log_Level (Log (Config fancy_cfgm)) = ''verbose''
   \<and> (\<exists>lg. WithDefaultLogger example_world (empty_CliOptions\<lparr>configManager := Some fancy_cfgm\<rparr>) =
             (None, empty_CliOptions\<lparr>configManager := Some fancy_cfgm,
                      logger := Some (NewEntry lg)\<rparr>) \<and> Level lg = InfoLevel)"
proof -
  have q: "logger quiet_CliOptions = None" "configManager quiet_CliOptions = Some quiet_cfgm"
    and f: "logger (empty_CliOptions\<lparr>configManager := Some fancy_cfgm\<rparr>) = None"
      "configManager (empty_CliOptions\<lparr>configManager := Some fancy_cfgm\<rparr>) = Some fancy_cfgm"
    by (simp_all add: quiet_CliOptions_def empty_CliOptions_def)
  have l: "Levels example_world (Log_Level (Log (Config quiet_cfgm))) = None"
    "Levels example_world (Log_Level (Log (Config fancy_cfgm))) = None"
    "Log_Level (Log (Config quiet_cfgm)) = []"
    "Log_Level (Log (Config fancy_cfgm)) = ''verbose''"
    by (simp_all add: example_world_def quiet_cfgm_def fancy_cfgm_def)
  show ?thesis
    using WithDefaultLogger_unknown_level_is_info [OF q l(1)]
      WithDefaultLogger_unknown_level_is_info [OF f l(2)] l
    by simp
qed

subsection \<open>C7: the plugin manager needs a configuration manager\<close>

text \<open>
  C7. With the plugin manager unset, \<^verbatim>\<open>WithDefaultPluginManager\<close> fails with
  "cannot access config manager" when the configuration manager is missing; when it
  is present the option succeeds and stores the plugin manager that
  \<^verbatim>\<open>plugins.NewPluginManager\<close> builds from \<^verbatim>\<open>Config.Paths.Plugins\<close>.
\<close>

theorem WithDefaultPluginManager_needs_config:
  assumes "pluginManager c = None"
  shows "(configManager c = None \<longrightarrow>
            WithDefaultPluginManager w c = (Some (Errorf ''cannot access config manager''), c))
       \<and> (\<forall>cm. configManager c = Some cm \<longrightarrow>
            WithDefaultPluginManager w c =
              (None, c\<lparr>pluginManager :=
                         Some (NewPluginManager w (Plugins (Paths (Config cm))))\<rparr>))"
  using assms by (simp add: WithDefaultPluginManager_def)

text \<open>On the empty record, and on a record with a configuration manager.\<close>

theorem WithDefaultPluginManager_needs_config_witness:
  "pluginManager empty_CliOptions = None \<and> configManager empty_CliOptions = None
   \<and> WithDefaultPluginManager example_world empty_CliOptions =
       (Some (Errorf ''cannot access config manager''), empty_CliOptions)
   \<and> pluginManager config_CliOptions = None \<and> configManager config_CliOptions = Some example_cfgm
   \<and> WithDefaultPluginManager example_world config_CliOptions =
       (None, config_CliOptions\<lparr>pluginManager :=
          Some (NewPluginManager example_world ''/usr/lib/kraftkit/plugins'')\<rparr>)"
proof -
  have e: "pluginManager empty_CliOptions = None" and c: "pluginManager config_CliOptions = None"
    by (simp_all add: config_CliOptions_def empty_CliOptions_def)
  have m: "configManager empty_CliOptions = None"
    "configManager config_CliOptions = Some example_cfgm"
    "Plugins (Paths (Config example_cfgm)) = ''/usr/lib/kraftkit/plugins''"
    by (simp_all add: config_CliOptions_def empty_CliOptions_def example_cfgm_def
        example_config_def)
  show ?thesis
    using WithDefaultPluginManager_needs_config [OF e, of example_world]
      WithDefaultPluginManager_needs_config [OF c, of example_world] e c m
    by simp
qed

subsection \<open>C8: the fallback logger, and the output of the logger\<close>

text \<open>
  C8. With the logger unset: when the configuration manager is missing,
  \<^verbatim>\<open>WithDefaultLogger\<close> returns no error and stores \<^verbatim>\<open>log.L\<close>; when a configuration
  manager and streams are present, it returns no error and the logger it stores
  writes to the \<^verbatim>\<open>Out\<close> of those streams.
\<close>

theorem WithDefaultLogger_fallback_and_output:
  assumes "logger c = None"
  shows "(configManager c = None \<longrightarrow> WithDefaultLogger w c = (None, c\<lparr>logger := L w\<rparr>))
       \<and> (\<forall>cm io. configManager c = Some cm \<and> ioStreams c = Some io \<longrightarrow>
            (\<exists>lg. WithDefaultLogger w c = (None, c\<lparr>logger := Some (NewEntry lg)\<rparr>)
                  \<and> Logger_Out lg = Out io))"
proof (intro conjI allI impI)
  assume "configManager c = None"
  then show "WithDefaultLogger w c = (None, c\<lparr>logger := L w\<rparr>)"
    using assms by (simp add: WithDefaultLogger_def)
next
  fix cm io
  assume "configManager c = Some cm \<and> ioStreams c = Some io"
  then have cm: "configManager c = Some cm" and io: "ioStreams c = Some io"
    by simp_all
  show "\<exists>lg. WithDefaultLogger w c = (None, c\<lparr>logger := Some (NewEntry lg)\<rparr>)
          \<and> Logger_Out lg = Out io"
    by (intro exI conjI, rule logger_step [OF assms cm]) (simp add: io)
qed

text \<open>On the empty record, and on a record with a configuration manager and streams.\<close>

theorem WithDefaultLogger_fallback_and_output_witness:
  "logger empty_CliOptions = None \<and> configManager empty_CliOptions = None
   \<and> WithDefaultLogger example_world empty_CliOptions =
       (None, empty_CliOptions\<lparr>logger := Some example_entry\<rparr>)
   \<and> logger ready_CliOptions = None \<and> configManager ready_CliOptions = Some example_cfgm
   \<and> ioStreams ready_CliOptions = Some example_io
   \<and> (\<exists>lg. WithDefaultLogger example_world ready_CliOptions =
             (None, ready_CliOptions\<lparr>logger := Some (NewEntry lg)\<rparr>)
           \<and> Logger_Out lg = Writer 7)"
proof -
  have e: "logger empty_CliOptions = None" and r: "logger ready_CliOptions = None"
    by (simp_all add: ready_CliOptions_def empty_CliOptions_def)
  have m: "configManager empty_CliOptions = None"
    "configManager ready_CliOptions = Some example_cfgm"
    "ioStreams ready_CliOptions = Some example_io"
    "L example_world = Some example_entry" "Out example_io = Writer 7"
    by (simp_all add: ready_CliOptions_def empty_CliOptions_def example_world_def
        example_io_def)
  show ?thesis
    using WithDefaultLogger_fallback_and_output [OF e, of example_world]
      WithDefaultLogger_fallback_and_output [OF r, of example_world] e r m
    by simp
qed

subsection \<open>C9: a guarded default does nothing on a field that is set\<close>

text \<open>
  C9. Each of \<^verbatim>\<open>WithDefaultLogger\<close>, \<^verbatim>\<open>WithDefaultIOStreams\<close>,
  \<^verbatim>\<open>WithDefaultHTTPClient\<close>, \<^verbatim>\<open>WithDefaultPackageManager\<close> and
  \<^verbatim>\<open>WithDefaultPluginManager\<close> returns no error and the record unchanged when its
  field is already set; and applying it to the record it has just produced gives the
  same error and the same record as the first application.
\<close>

theorem guarded_default_is_noop_when_set:
  assumes "guarded_default s"
  shows "(is_set (aspect s) c \<longrightarrow> option_of w s c = (None, c))
       \<and> option_of w s (snd (option_of w s c)) = option_of w s c"
  using assms
  by (cases s) (simp_all add: guard_logger guard_io guard_http guard_pm guard_plug
      idem_logger idem_io idem_http idem_pm idem_plug)

text \<open>
  An HTTP client that is set is kept even where the factory would fail; the default
  package manager applied twice to the empty record.
\<close>

theorem guarded_default_is_noop_when_set_witness:
  "guarded_default Step_WithDefaultHTTPClient
   \<and> is_set (aspect Step_WithDefaultHTTPClient)
       (empty_CliOptions\<lparr>httpClient := Some (HTTPClient 4)\<rparr>)
   \<and> WithDefaultHTTPClient failing_world (empty_CliOptions\<lparr>httpClient := Some (HTTPClient 4)\<rparr>)
       = (None, empty_CliOptions\<lparr>httpClient := Some (HTTPClient 4)\<rparr>)
   \<and> WithDefaultPackageManager example_world
       (snd (WithDefaultPackageManager example_world empty_CliOptions))
       = WithDefaultPackageManager example_world empty_CliOptions"
proof -
  have g: "guarded_default Step_WithDefaultHTTPClient"
    "guarded_default Step_WithDefaultPackageManager"
    by simp_all
  have i: "is_set (aspect Step_WithDefaultHTTPClient)
       (empty_CliOptions\<lparr>httpClient := Some (HTTPClient 4)\<rparr>)"
    by simp
  show ?thesis
    using g(1) i
      guarded_default_is_noop_when_set [OF g(1),
        of "empty_CliOptions\<lparr>httpClient := Some (HTTPClient 4)\<rparr>" failing_world]
      guarded_default_is_noop_when_set [OF g(2), of empty_CliOptions example_world]
    by simp
qed

subsection \<open>C10: KRAFTKIT_PAGER set to the empty string\<close>

text \<open>
  C10. With the streams unset and \<^verbatim>\<open>KRAFTKIT_PAGER\<close> in the environment,
  \<^verbatim>\<open>WithDefaultIOStreams\<close> stores streams whose pager is the value of that variable.
  In particular, when the value is the empty string and the configuration has a pager
  that is not empty, the pager is the empty string and not the configured one.
\<close>

theorem KRAFTKIT_PAGER_wins_when_present:
  assumes "ioStreams c = None" and "LookupEnv w ''KRAFTKIT_PAGER'' = Some kk"
  shows "\<exists>io. WithDefaultIOStreams w c = (None, c\<lparr>ioStreams := Some io\<rparr>)
           \<and> pagerCommand io = kk
           \<and> (kk = [] \<and> config_pager c \<noteq> [] \<longrightarrow>
                pagerCommand io = [] \<and> pagerCommand io \<noteq> config_pager c)"
  using io_step [OF assms(1), of w] assms(2) by auto

text \<open>\<^verbatim>\<open>KRAFTKIT_PAGER=\<close> against the pager \<^verbatim>\<open>less\<close> of the configuration.\<close>

theorem KRAFTKIT_PAGER_wins_when_present_witness:
  "ioStreams config_CliOptions = None
   \<and> LookupEnv empty_pager_world ''KRAFTKIT_PAGER'' = Some []
   \<and> config_pager config_CliOptions = ''less''
   \<and> (\<exists>io. WithDefaultIOStreams empty_pager_world config_CliOptions =
             (None, config_CliOptions\<lparr>ioStreams := Some io\<rparr>) \<and> pagerCommand io = [])"
proof -
  have a: "ioStreams config_CliOptions = None"
    by (simp add: config_CliOptions_def empty_CliOptions_def)
  have b: "LookupEnv empty_pager_world ''KRAFTKIT_PAGER'' = Some []"
    by (simp add: empty_pager_world_def)
  have c: "config_pager config_CliOptions = ''less''"
    by (simp add: config_pager_def config_CliOptions_def empty_CliOptions_def
        example_cfgm_def example_config_def)
  show ?thesis
    using a b c KRAFTKIT_PAGER_wins_when_present [OF a b] by auto
qed

end
